theory Spec2Isabelle
  imports Main "HOL-Library.AList"
begin

section \<open>Python values\<close>

text \<open>
  The handlers of \<^verbatim>\<open>IPython/html/services/notebooks/handlers.py\<close> work on the values
  that \<^verbatim>\<open>json.loads\<close> and the notebook manager produce: \<^verbatim>\<open>None\<close>, booleans, integers,
  strings, lists and dictionaries, and the \<^verbatim>\<open>datetime\<close> stamps of the notebook manager's
  models. A dictionary is an association list with string keys, read at the first
  occurrence of a key. Floating-point numbers are left out.
\<close>

datatype pyval =
    PNone
  | PBool bool
  | PInt int
  | PStr string
  | PDate int
  | PList "pyval list"
  | PDict "(string \<times> pyval) list"

text \<open>Truth value testing, as \<^verbatim>\<open>if model:\<close> and \<^verbatim>\<open>if copy:\<close> do it.\<close>

fun truthy :: "pyval \<Rightarrow> bool" where
  "truthy PNone = False"
| "truthy (PBool b) = b"
| "truthy (PInt i) = (i \<noteq> 0)"
| "truthy (PStr s) = (s \<noteq> [])"
| "truthy (PDate d) = True"
| "truthy (PList xs) = (xs \<noteq> [])"
| "truthy (PDict kvs) = (kvs \<noteq> [])"

text \<open>
  Exceptions. \<^verbatim>\<open>web.HTTPError(status, log_message=None)\<close> carries the status code of
  the response; every other exception ends as a server error.
\<close>

datatype error =
    HTTPError nat "string option"
  | KeyError string
  | TypeError
  | AttributeError

text \<open>\<^verbatim>\<open>model[key]\<close> for a string key: a missing key raises, and so does a value that
  is not a dictionary.\<close>

fun getitem :: "pyval \<Rightarrow> string \<Rightarrow> error + pyval" where
  "getitem (PDict kvs) k = (case map_of kvs k of None \<Rightarrow> Inl (KeyError k) | Some v \<Rightarrow> Inr v)"
| "getitem v k = Inl TypeError"

text \<open>\<^verbatim>\<open>model[key] = value\<close> for a string key; Python mutates the dictionary, the model
  returns the new one.\<close>

fun setitem :: "pyval \<Rightarrow> string \<Rightarrow> pyval \<Rightarrow> error + pyval" where
  "setitem (PDict kvs) k v = Inr (PDict (AList.update k v kvs))"
| "setitem m k v = Inl TypeError"

text \<open>\<^verbatim>\<open>s.strip('/')\<close>: the slashes at both ends are removed.\<close>

definition strip_slash :: "string \<Rightarrow> string" where
  "strip_slash s =
     rev (dropWhile (\<lambda>c. c = CHR ''/'') (rev (dropWhile (\<lambda>c. c = CHR ''/'') s)))"

section \<open>The notebook manager, the request and the handler\<close>

text \<open>
  The notebook manager (\<^verbatim>\<open>self.notebook_manager\<close>) is not part of the handlers' file.
  It is a parameter of the model: a function from the method called with its arguments,
  in the order of the call, and the manager's state to the value returned or the
  exception raised, and the new state.
\<close>

datatype nbm_call =
    List_notebooks string
  | Get_notebook_model string string
  | Update_notebook_model pyval string string
  | Copy_notebook string "string option" string
  | Create_notebook_model pyval string
  | Save_notebook_model pyval string string
  | Notebook_exists string string
  | Delete_notebook_model "string option" string
  | List_checkpoints "string option" string
  | Create_checkpoint "string option" string
  | Restore_checkpoint string string string
  | Delete_checkpoint string string string

text \<open>
  What a handler reads from its surroundings: \<^verbatim>\<open>self.base_project_url\<close>, the helper
  \<^verbatim>\<open>url_path_join\<close> of \<^verbatim>\<open>IPython.html.utils\<close> (on strings) and the notebook manager.
\<close>

record 'st environment =
  base_project_url :: string
  url_path_join :: "string list \<Rightarrow> string"
  notebook_manager :: "nbm_call \<Rightarrow> 'st \<Rightarrow> (error + pyval) \<times> 'st"

text \<open>
  The request, beyond the \<^verbatim>\<open>path\<close> and \<^verbatim>\<open>name\<close> that the URL pattern passes to
  the method: the parsed body and the \<^verbatim>\<open>copy\<close> query argument.
\<close>

record request =
  json_body :: pyval
  copy_argument :: string

text \<open>
  Modelled from the spec: \<^verbatim>\<open>get_json_body\<close> of the base handler is missing from the
  sources; the transport delivers the already-parsed JSON body, \<^verbatim>\<open>None\<close> when the body is
  absent or null.
\<close>

definition get_json_body :: "request \<Rightarrow> pyval" where
  "get_json_body req = json_body req"

text \<open>\<^verbatim>\<open>self.get_argument("copy", default="")\<close>: the empty string when the query has no
  such argument.\<close>

definition get_copy_argument :: "request \<Rightarrow> string" where
  "get_copy_argument req = copy_argument req"

text \<open>
  The state a handler works on: the response under construction (status, headers, the
  value handed to \<^verbatim>\<open>finish\<close> before serialisation), the notebook manager's state, and the
  sequence of calls made to the notebook manager so far.
\<close>

record 'st handler =
  status :: nat
  headers :: "(string \<times> pyval) list"
  written :: "pyval option"
  finished :: bool
  store :: 'st
  calls :: "nbm_call list"

text \<open>
  The handler at the start of a request: the framework begins every response with status
  200; its own default headers are left out, none of them being Location or
  Last-Modified; nothing is written yet.
\<close>

definition new_handler :: "'st \<Rightarrow> 'st handler" where
  "new_handler st =
     \<lparr>status = 200, headers = [], written = None, finished = False, store = st, calls = []\<rparr>"

type_synonym ('a, 'st) action = "'st handler \<Rightarrow> (error + 'a) \<times> 'st handler"

text \<open>Sequencing: an exception ends the method and keeps the state reached.\<close>

definition return :: "'a \<Rightarrow> ('a, 'st) action" where
  "return x s = (Inr x, s)"

definition raise :: "error \<Rightarrow> ('a, 'st) action" where
  "raise e s = (Inl e, s)"

definition and_then :: "('a, 'st) action \<Rightarrow> ('a \<Rightarrow> ('b, 'st) action) \<Rightarrow> ('b, 'st) action" where
  "and_then m f s = (case m s of (Inl e, s') \<Rightarrow> (Inl e, s') | (Inr x, s') \<Rightarrow> f x s')"

definition lift :: "error + 'a \<Rightarrow> ('a, 'st) action" where
  "lift r s = (r, s)"

definition set_status :: "nat \<Rightarrow> (unit, 'st) action" where
  "set_status code s = (Inr (), s\<lparr>status := code\<rparr>)"

definition set_header :: "string \<Rightarrow> pyval \<Rightarrow> (unit, 'st) action" where
  "set_header name v s = (Inr (), s\<lparr>headers := AList.update name v (headers s)\<rparr>)"

definition finish :: "pyval option \<Rightarrow> (unit, 'st) action" where
  "finish chunk s = (Inr (), s\<lparr>written := chunk, finished := True\<rparr>)"

text \<open>A call of a method of the notebook manager.\<close>

definition nbm :: "'st environment \<Rightarrow> nbm_call \<Rightarrow> (pyval, 'st) action" where
  "nbm env c s =
     (case notebook_manager env c (store s) of
        (r, st') \<Rightarrow> (r, s\<lparr>store := st', calls := calls s @ [c]\<rparr>))"

text \<open>\<^verbatim>\<open>url_path_join\<close> applies string methods to every piece: a piece that is not a
  string raises.\<close>

fun str_pieces :: "pyval list \<Rightarrow> error + string list" where
  "str_pieces [] = Inr []"
| "str_pieces (PStr s # ps) =
     (case str_pieces ps of Inl e \<Rightarrow> Inl e | Inr ss \<Rightarrow> Inr (s # ss))"
| "str_pieces (v # ps) = Inl AttributeError"

definition path_join :: "'st environment \<Rightarrow> pyval list \<Rightarrow> error + pyval" where
  "path_join env ps =
     (case str_pieces ps of Inl e \<Rightarrow> Inl e | Inr ss \<Rightarrow> Inr (PStr (url_path_join env ss)))"

section \<open>NotebookHandler\<close>

text \<open>
  The methods in the order of the source. The calls of \<^verbatim>\<open>self.log.info\<close> change nothing
  of the response and are left out; \<^verbatim>\<open>json.dumps\<close> is not modelled, \<^verbatim>\<open>written\<close> holds
  the value before serialisation.
\<close>

definition notebook_location :: "'st environment \<Rightarrow> pyval \<Rightarrow> pyval \<Rightarrow> error + pyval" where
  "notebook_location env name path =
     path_join env [PStr (base_project_url env), PStr ''api'', PStr ''notebooks'', path, name]"

definition finish_model :: "'st environment \<Rightarrow> pyval \<Rightarrow> bool \<Rightarrow> (unit, 'st) action" where
  "finish_model env model location =
     and_then
       (if location then
          and_then (lift (getitem model ''name'')) (\<lambda>name.
          and_then (lift (getitem model ''path'')) (\<lambda>path.
          and_then (lift (notebook_location env name path)) (\<lambda>loc.
          set_header ''Location'' loc)))
        else return ())
       (\<lambda>_.
     and_then (lift (getitem model ''last_modified'')) (\<lambda>lm.
     and_then (set_header ''Last-Modified'' lm) (\<lambda>_.
     finish (Some model))))"

definition NotebookHandler_get ::
  "'st environment \<Rightarrow> string \<Rightarrow> string option \<Rightarrow> (unit, 'st) action" where
  "NotebookHandler_get env path name =
     (case name of
        None \<Rightarrow>
          and_then (nbm env (List_notebooks path)) (\<lambda>notebooks. finish (Some notebooks))
      | Some n \<Rightarrow>
          and_then (nbm env (Get_notebook_model n path)) (\<lambda>model.
          finish_model env model False))"

definition NotebookHandler_patch ::
  "'st environment \<Rightarrow> request \<Rightarrow> string \<Rightarrow> string option \<Rightarrow> (unit, 'st) action" where
  "NotebookHandler_patch env req path name =
     (case name of
        None \<Rightarrow> raise (HTTPError 400 (Some ''Notebook name missing''))
      | Some n \<Rightarrow>
          (let model = get_json_body req in
           if model = PNone then raise (HTTPError 400 (Some ''JSON body missing''))
           else
             and_then (nbm env (Update_notebook_model model n path)) (\<lambda>model.
             finish_model env model True)))"

definition copy_notebook ::
  "'st environment \<Rightarrow> string \<Rightarrow> string \<Rightarrow> string option \<Rightarrow> (unit, 'st) action" where
  "copy_notebook env copy_from path copy_to =
     and_then (nbm env (Copy_notebook copy_from copy_to path)) (\<lambda>model.
     and_then (set_status 201) (\<lambda>_.
     finish_model env model True))"

text \<open>\<^verbatim>\<open>if name: model['name'] = name\<close>: a name that is absent or empty is not
  written into the model.\<close>

definition put_name :: "pyval \<Rightarrow> string option \<Rightarrow> error + pyval" where
  "put_name model name =
     (case name of
        None \<Rightarrow> Inr model
      | Some n \<Rightarrow> if n \<noteq> [] then setitem model ''name'' (PStr n) else Inr model)"

definition upload_notebook ::
  "'st environment \<Rightarrow> pyval \<Rightarrow> string \<Rightarrow> string option \<Rightarrow> (unit, 'st) action" where
  "upload_notebook env model path name =
     and_then (lift (put_name model name)) (\<lambda>model.
     and_then (nbm env (Create_notebook_model model path)) (\<lambda>model.
     and_then (set_status 201) (\<lambda>_.
     finish_model env model True)))"

definition create_empty_notebook ::
  "'st environment \<Rightarrow> string \<Rightarrow> string option \<Rightarrow> (unit, 'st) action" where
  "create_empty_notebook env path name =
     and_then (lift (put_name (PDict []) name)) (\<lambda>model.
     and_then (nbm env (Create_notebook_model model path)) (\<lambda>model.
     and_then (set_status 201) (\<lambda>_.
     finish_model env model True)))"

definition save_notebook ::
  "'st environment \<Rightarrow> pyval \<Rightarrow> string \<Rightarrow> string \<Rightarrow> (unit, 'st) action" where
  "save_notebook env model path name =
     and_then (nbm env (Save_notebook_model model name path)) (\<lambda>model.
     and_then (lift (getitem model ''path'')) (\<lambda>mpath.
     and_then
       (if mpath \<noteq> PStr (strip_slash path) then return True
        else and_then (lift (getitem model ''name'')) (\<lambda>mname. return (mname \<noteq> PStr name)))
       (\<lambda>location.
     finish_model env model location)))"

definition NotebookHandler_post ::
  "'st environment \<Rightarrow> request \<Rightarrow> string \<Rightarrow> string option \<Rightarrow> (unit, 'st) action" where
  "NotebookHandler_post env req path name =
     (let model = get_json_body req;
          copy = get_copy_argument req
      in if name \<noteq> None then
           raise (HTTPError 400 (Some ''Only POST to directories. Use PUT for full names''))
         else if copy \<noteq> [] then copy_notebook env copy path None
         else if truthy model then upload_notebook env model path None
         else create_empty_notebook env path None)"

definition NotebookHandler_put ::
  "'st environment \<Rightarrow> request \<Rightarrow> string \<Rightarrow> string option \<Rightarrow> (unit, 'st) action" where
  "NotebookHandler_put env req path name =
     (case name of
        None \<Rightarrow> raise (HTTPError 400 (Some ''Only PUT to full names. Use POST for directories.''))
      | Some n \<Rightarrow>
          (let model = get_json_body req;
               copy = get_copy_argument req
           in if copy \<noteq> [] then
                (if model \<noteq> PNone then raise (HTTPError 400 None)
                 else copy_notebook env copy path (Some n))
              else if truthy model then
                and_then (nbm env (Notebook_exists n path)) (\<lambda>exists.
                if truthy exists then save_notebook env model path n
                else upload_notebook env model path (Some n))
              else create_empty_notebook env path (Some n)))"

definition NotebookHandler_delete ::
  "'st environment \<Rightarrow> string \<Rightarrow> string option \<Rightarrow> (unit, 'st) action" where
  "NotebookHandler_delete env path name =
     and_then (nbm env (Delete_notebook_model name path)) (\<lambda>_.
     and_then (set_status 204) (\<lambda>_.
     finish None))"

section \<open>NotebookCheckpointsHandler\<close>

text \<open>A name that is \<^verbatim>\<open>None\<close> reaches \<^verbatim>\<open>url_path_join\<close> as it is.\<close>

definition name_value :: "string option \<Rightarrow> pyval" where
  "name_value name = (case name of None \<Rightarrow> PNone | Some n \<Rightarrow> PStr n)"

definition NotebookCheckpointsHandler_post ::
  "'st environment \<Rightarrow> string \<Rightarrow> string option \<Rightarrow> (unit, 'st) action" where
  "NotebookCheckpointsHandler_post env path name =
     and_then (nbm env (Create_checkpoint name path)) (\<lambda>checkpoint.
     and_then (lift (getitem checkpoint ''id'')) (\<lambda>cid.
     and_then (lift (path_join env
        [PStr (base_project_url env), PStr ''api/notebooks'', PStr path, name_value name,
         PStr ''checkpoints'', cid])) (\<lambda>location.
     and_then (set_header ''Location'' location) (\<lambda>_.
     and_then (set_status 201) (\<lambda>_.
     finish (Some checkpoint))))))"

section \<open>Responses\<close>

text \<open>
  A model as the notebook manager returns it: a dictionary with a string \<^verbatim>\<open>name\<close>, a
  string \<^verbatim>\<open>path\<close> and a \<^verbatim>\<open>last_modified\<close> entry.
\<close>

definition is_notebook_model :: "pyval \<Rightarrow> string \<Rightarrow> string \<Rightarrow> pyval \<Rightarrow> bool" where
  "is_notebook_model m name path lm =
     (getitem m ''name'' = Inr (PStr name) \<and> getitem m ''path'' = Inr (PStr path) \<and>
      getitem m ''last_modified'' = Inr lm)"

text \<open>A finished response: its status, its headers, the value written, and the notebook
  manager's state and the calls made to it.\<close>

definition response ::
  "nat \<Rightarrow> (string \<times> pyval) list \<Rightarrow> pyval option \<Rightarrow> 'st \<Rightarrow> nbm_call list \<Rightarrow> 'st handler" where
  "response code hs chunk st cs =
     \<lparr>status = code, headers = hs, written = chunk, finished = True, store = st, calls = cs\<rparr>"

text \<open>The response carries the \<^verbatim>\<open>last_modified\<close> entry of the model it has written as
  its \<^verbatim>\<open>Last-Modified\<close> header.\<close>

definition carries_last_modified :: "'st handler \<Rightarrow> bool" where
  "carries_last_modified s =
     (case written s of
        None \<Rightarrow> False
      | Some m \<Rightarrow>
          (case getitem m ''last_modified'' of
             Inl e \<Rightarrow> False
           | Inr lm \<Rightarrow> map_of (headers s) ''Last-Modified'' = Some lm))"

section \<open>A sample environment\<close>

text \<open>
  Concrete inputs for running the handlers: a notebook manager that keeps the
  (path, name) pairs of its notebooks in a list, stamps every model with the same date and
  answers 404 for what it does not hold, and a join that puts one slash before every
  non-empty piece.
\<close>

type_synonym sample_store = "(string \<times> string) list"

definition sample_model :: "string \<Rightarrow> string \<Rightarrow> pyval" where
  "sample_model name path =
     PDict [(''name'', PStr name), (''path'', PStr (strip_slash path)),
            (''last_modified'', PDate 0)]"

definition model_name :: "pyval \<Rightarrow> string \<Rightarrow> string" where
  "model_name m d = (case getitem m ''name'' of Inr (PStr n) \<Rightarrow> n | _ \<Rightarrow> d)"

definition sample_checkpoint :: pyval where
  "sample_checkpoint = PDict [(''id'', PStr ''checkpoint-0''), (''last_modified'', PDate 0)]"

fun sample_manager :: "nbm_call \<Rightarrow> sample_store \<Rightarrow> (error + pyval) \<times> sample_store" where
  "sample_manager (Notebook_exists n p) st = (Inr (PBool ((strip_slash p, n) \<in> set st)), st)"
| "sample_manager (Create_notebook_model m p) st =
     (Inr (sample_model (model_name m ''Untitled0.ipynb'') p),
      (strip_slash p, model_name m ''Untitled0.ipynb'') # st)"
| "sample_manager (Copy_notebook src dst p) st =
     (if (strip_slash p, src) \<in> set st then
        (Inr (sample_model (case dst of None \<Rightarrow> ''Copy0.ipynb'' | Some n \<Rightarrow> n) p),
         (strip_slash p, (case dst of None \<Rightarrow> ''Copy0.ipynb'' | Some n \<Rightarrow> n)) # st)
      else (Inl (HTTPError 404 None), st))"
| "sample_manager (Save_notebook_model m n p) st =
     (Inr (sample_model (model_name m n) p),
      (strip_slash p, model_name m n) # removeAll (strip_slash p, n) st)"
| "sample_manager (Update_notebook_model m n p) st =
     (if (strip_slash p, n) \<in> set st then
        (Inr (sample_model (model_name m n) p),
         (strip_slash p, model_name m n) # removeAll (strip_slash p, n) st)
      else (Inl (HTTPError 404 None), st))"
| "sample_manager (Delete_notebook_model (Some n) p) st =
     (if (strip_slash p, n) \<in> set st then (Inr PNone, removeAll (strip_slash p, n) st)
      else (Inl (HTTPError 404 None), st))"
| "sample_manager (Create_checkpoint (Some n) p) st =
     (if (strip_slash p, n) \<in> set st then (Inr sample_checkpoint, st)
      else (Inl (HTTPError 404 None), st))"
| "sample_manager c st = (Inl (HTTPError 404 None), st)"

fun sample_join :: "string list \<Rightarrow> string" where
  "sample_join [] = []"
| "sample_join (s # ss) =
     (if strip_slash s = [] then sample_join ss else CHR ''/'' # strip_slash s @ sample_join ss)"

definition sample_env :: "sample_store environment" where
  "sample_env =
     \<lparr>base_project_url = ''/'', url_path_join = sample_join, notebook_manager = sample_manager\<rparr>"


section \<open>Auxiliary facts\<close>

lemmas sample_defs =
  sample_env_def sample_model_def sample_checkpoint_def model_name_def strip_slash_def
  is_notebook_model_def response_def

lemmas action_defs =
  return_def raise_def and_then_def lift_def set_status_def set_header_def finish_def nbm_def

lemmas handler_defs =
  NotebookHandler_post_def NotebookHandler_put_def NotebookHandler_patch_def
  NotebookHandler_delete_def get_json_body_def get_copy_argument_def
  copy_notebook_def upload_notebook_def create_empty_notebook_def save_notebook_def
  put_name_def

text \<open>With a well-formed model, \<^verbatim>\<open>_finish_model\<close> sets both headers and finishes.\<close>

lemma finish_model_located:
  assumes "is_notebook_model m n p lm"
  shows "finish_model env m True s =
    (Inr (), s\<lparr>headers := AList.update ''Last-Modified'' lm
        (AList.update ''Location''
           (PStr (url_path_join env [base_project_url env, ''api'', ''notebooks'', p, n]))
           (headers s)),
      written := Some m, finished := True\<rparr>)"
  using assms
  by (simp add: finish_model_def is_notebook_model_def notebook_location_def path_join_def
      action_defs)

lemma finish_model_plain:
  assumes "getitem m ''last_modified'' = Inr lm"
  shows "finish_model env m False s =
    (Inr (), s\<lparr>headers := AList.update ''Last-Modified'' lm (headers s),
      written := Some m, finished := True\<rparr>)"
  using assms by (simp add: finish_model_def action_defs)

text \<open>Whenever \<^verbatim>\<open>_finish_model\<close> returns, the header \<^verbatim>\<open>Last-Modified\<close> is set.\<close>

lemma finish_model_carries:
  assumes "finish_model env m loc s = (Inr (), s')"
  shows "carries_last_modified s'"
  using assms
  by (auto simp add: finish_model_def action_defs update_conv' carries_last_modified_def
      split: if_splits sum.splits)

lemma nbm_result:
  assumes "notebook_manager env c (store s) = (r, st')"
  shows "nbm env c s = (r, s\<lparr>store := st', calls := calls s @ [c]\<rparr>)"
  using assms by (simp add: nbm_def)

lemma nbm_first:
  assumes "notebook_manager env c st = (r, st')"
  shows "nbm env c (new_handler st) = (r, (new_handler st)\<lparr>store := st', calls := [c]\<rparr>)"
  using assms by (simp add: nbm_def new_handler_def)

section \<open>POST\<close>

text \<open>
  C4. A POST that names a document raises HTTP 400 whatever the body and the copy
  argument are, and leaves the handler as it was: no method of the notebook manager has
  been called.
\<close>

theorem post_with_name_rejected:
  "NotebookHandler_post env req path (Some n) s =
     (Inl (HTTPError 400 (Some ''Only POST to directories. Use PUT for full names'')), s)"
  by (simp add: NotebookHandler_post_def raise_def)

text \<open>
  C3. A POST without a name makes exactly one call to the notebook manager: the copy when
  the copy argument is not empty (whatever the body), else the creation from the body when
  the body is present and not empty, else the creation from the empty model. When that
  call returns a well-formed model the response is 201 with the headers Location and
  Last-Modified.
\<close>

theorem post_selects_one_operation:
  fixes req :: request and path :: string
  defines "c \<equiv>
     (if copy_argument req \<noteq> [] then Copy_notebook (copy_argument req) None path
      else if truthy (json_body req) then Create_notebook_model (json_body req) path
      else Create_notebook_model (PDict []) path)"
  assumes res: "notebook_manager env c st = (Inr m, st')"
    and wf: "is_notebook_model m mn mp lm"
  shows "NotebookHandler_post env req path None (new_handler st) =
     (Inr (), response 201
        [(''Location'',
          PStr (url_path_join env [base_project_url env, ''api'', ''notebooks'', mp, mn])),
         (''Last-Modified'', lm)]
        (Some m) st' [c])"
proof -
  note call = nbm_first [OF res]
  consider (copy) "copy_argument req \<noteq> []"
    | (upload) "copy_argument req = []" "truthy (json_body req)"
    | (empty) "copy_argument req = []" "\<not> truthy (json_body req)"
    by blast
  then show ?thesis
  proof cases
    case copy
    then have "c = Copy_notebook (copy_argument req) None path" by (simp add: c_def)
    with copy call show ?thesis
      by (simp add: handler_defs and_then_def set_status_def finish_model_located [OF wf]
          response_def new_handler_def)
  next
    case upload
    then have "c = Create_notebook_model (json_body req) path" by (simp add: c_def)
    with upload call show ?thesis
      by (simp add: handler_defs and_then_def lift_def set_status_def
          finish_model_located [OF wf] response_def new_handler_def)
  next
    case empty
    then have "c = Create_notebook_model (PDict []) path" by (simp add: c_def)
    with empty call show ?thesis
      by (simp add: handler_defs and_then_def lift_def set_status_def
          finish_model_located [OF wf] response_def new_handler_def)
  qed
qed

theorem post_selects_one_operation_witness:
  "NotebookHandler_post sample_env \<lparr>json_body = PList [PInt 1], copy_argument = ''a.ipynb''\<rparr>
       ''/work'' None (new_handler [(''work'', ''a.ipynb'')]) =
     (Inr (), response 201
        [(''Location'', PStr ''/api/notebooks/work/Copy0.ipynb''), (''Last-Modified'', PDate 0)]
        (Some (sample_model ''Copy0.ipynb'' ''work''))
        [(''work'', ''Copy0.ipynb''), (''work'', ''a.ipynb'')]
        [Copy_notebook ''a.ipynb'' None ''/work''])
   \<and> NotebookHandler_post sample_env \<lparr>json_body = PList [PInt 1], copy_argument = []\<rparr>
       ''/work'' None (new_handler []) =
     (Inr (), response 201
        [(''Location'', PStr ''/api/notebooks/work/Untitled0.ipynb''),
         (''Last-Modified'', PDate 0)]
        (Some (sample_model ''Untitled0.ipynb'' ''work''))
        [(''work'', ''Untitled0.ipynb'')]
        [Create_notebook_model (PList [PInt 1]) ''/work''])
   \<and> NotebookHandler_post sample_env \<lparr>json_body = PNone, copy_argument = []\<rparr>
       ''/work'' None (new_handler []) =
     (Inr (), response 201
        [(''Location'', PStr ''/api/notebooks/work/Untitled0.ipynb''),
         (''Last-Modified'', PDate 0)]
        (Some (sample_model ''Untitled0.ipynb'' ''work''))
        [(''work'', ''Untitled0.ipynb'')]
        [Create_notebook_model (PDict []) ''/work''])"
  using post_selects_one_operation
    [of sample_env "\<lparr>json_body = PList [PInt 1], copy_argument = ''a.ipynb''\<rparr>" "''/work''"
        "[(''work'', ''a.ipynb'')]" "sample_model ''Copy0.ipynb'' ''work''"
        "[(''work'', ''Copy0.ipynb''), (''work'', ''a.ipynb'')]"
        "''Copy0.ipynb''" "''work''" "PDate 0"]
    post_selects_one_operation
    [of sample_env "\<lparr>json_body = PList [PInt 1], copy_argument = []\<rparr>" "''/work''"
        "[]" "sample_model ''Untitled0.ipynb'' ''work''" "[(''work'', ''Untitled0.ipynb'')]"
        "''Untitled0.ipynb''" "''work''" "PDate 0"]
    post_selects_one_operation
    [of sample_env "\<lparr>json_body = PNone, copy_argument = []\<rparr>" "''/work''"
        "[]" "sample_model ''Untitled0.ipynb'' ''work''" "[(''work'', ''Untitled0.ipynb'')]"
        "''Untitled0.ipynb''" "''work''" "PDate 0"]
  by (simp add: sample_defs)

section \<open>PATCH\<close>



section \<open>PUT\<close>

text \<open>
  C2. A PUT with a name and a non-empty copy argument: a body that is not null raises
  HTTP 400 and nothing has been done; with a null body the notebook manager's copy is
  called from the copy argument to the name, and when it returns a well-formed model the
  response is 201 with the headers Location and Last-Modified.
\<close>

theorem put_copy_excludes_body:
  assumes copy: "copy_argument req \<noteq> []"
    and res: "json_body req = PNone \<Longrightarrow>
      notebook_manager env (Copy_notebook (copy_argument req) (Some n) path) st = (Inr m, st') \<and>
      is_notebook_model m mn mp lm"
  shows "NotebookHandler_put env req path (Some n) (new_handler st) =
     (if json_body req \<noteq> PNone then (Inl (HTTPError 400 None), new_handler st)
      else
        (Inr (), response 201
           [(''Location'',
             PStr (url_path_join env [base_project_url env, ''api'', ''notebooks'', mp, mn])),
            (''Last-Modified'', lm)]
           (Some m) st' [Copy_notebook (copy_argument req) (Some n) path]))"
proof (cases "json_body req = PNone")
  case False
  with copy show ?thesis by (simp add: handler_defs raise_def)
next
  case True
  from res [OF True] have call:
    "notebook_manager env (Copy_notebook (copy_argument req) (Some n) path) st = (Inr m, st')"
    and wf: "is_notebook_model m mn mp lm"
    by simp_all
  from True copy nbm_first [OF call] show ?thesis
    by (simp add: handler_defs and_then_def set_status_def finish_model_located [OF wf]
        response_def new_handler_def)
qed

theorem put_copy_excludes_body_witness:
  "NotebookHandler_put sample_env \<lparr>json_body = PBool False, copy_argument = ''a.ipynb''\<rparr>
       ''/work'' (Some ''b.ipynb'') (new_handler [(''work'', ''a.ipynb'')]) =
     (Inl (HTTPError 400 None), new_handler [(''work'', ''a.ipynb'')])
   \<and> NotebookHandler_put sample_env \<lparr>json_body = PNone, copy_argument = ''a.ipynb''\<rparr>
       ''/work'' (Some ''b.ipynb'') (new_handler [(''work'', ''a.ipynb'')]) =
     (Inr (), response 201
        [(''Location'', PStr ''/api/notebooks/work/b.ipynb''), (''Last-Modified'', PDate 0)]
        (Some (sample_model ''b.ipynb'' ''work''))
        [(''work'', ''b.ipynb''), (''work'', ''a.ipynb'')]
        [Copy_notebook ''a.ipynb'' (Some ''b.ipynb'') ''/work''])"
  using put_copy_excludes_body
    [of "\<lparr>json_body = PBool False, copy_argument = ''a.ipynb''\<rparr>" sample_env "''b.ipynb''"
        "''/work''" "[(''work'', ''a.ipynb'')]"]
    put_copy_excludes_body
    [of "\<lparr>json_body = PNone, copy_argument = ''a.ipynb''\<rparr>" sample_env "''b.ipynb''"
        "''/work''" "[(''work'', ''a.ipynb'')]" "sample_model ''b.ipynb'' ''work''"
        "[(''work'', ''b.ipynb''), (''work'', ''a.ipynb'')]" "''b.ipynb''" "''work''" "PDate 0"]
  by (simp add: sample_defs)

text \<open>
  What \<^verbatim>\<open>_save_notebook\<close> does with a well-formed model from the notebook manager: the
  header Location is set unless the model has the requested name and the requested path
  without the slashes at its ends.
\<close>

lemma save_notebook_result:
  assumes call: "notebook_manager env (Save_notebook_model model n path) (store s) = (Inr m, st')"
    and wf: "is_notebook_model m mn mp lm"
  shows "save_notebook env model path n s =
    (Inr (), s\<lparr>headers := AList.update ''Last-Modified'' lm
        (if mp = strip_slash path \<and> mn = n then headers s
         else AList.update ''Location''
           (PStr (url_path_join env [base_project_url env, ''api'', ''notebooks'', mp, mn]))
           (headers s)),
      written := Some m, finished := True, store := st',
      calls := calls s @ [Save_notebook_model model n path]\<rparr>)"
proof -
  from wf have lm: "getitem m ''last_modified'' = Inr lm"
    and mp: "getitem m ''path'' = Inr (PStr mp)" and mn: "getitem m ''name'' = Inr (PStr mn)"
    by (simp_all add: is_notebook_model_def)
  show ?thesis
    by (simp add: save_notebook_def and_then_def lift_def return_def nbm_result [OF call]
        mp mn finish_model_located [OF wf] finish_model_plain [OF lm])
qed

lemma upload_notebook_result:
  assumes name: "put_name model name = Inr model'"
    and call: "notebook_manager env (Create_notebook_model model' path) (store s) = (Inr m, st')"
    and wf: "is_notebook_model m mn mp lm"
  shows "upload_notebook env model path name s =
    (Inr (), s\<lparr>status := 201,
      headers := AList.update ''Last-Modified'' lm
        (AList.update ''Location''
           (PStr (url_path_join env [base_project_url env, ''api'', ''notebooks'', mp, mn]))
           (headers s)),
      written := Some m, finished := True, store := st',
      calls := calls s @ [Create_notebook_model model' path]\<rparr>)"
  by (simp add: upload_notebook_def and_then_def lift_def set_status_def name
      nbm_result [OF call] finish_model_located [OF wf])

text \<open>
  C1, as the code has it. A PUT with a name, an empty copy argument and a body that is
  present and not empty asks the notebook manager whether the document exists. If it
  does, the body, whatever value it is, is saved and the response is 200. If it does not
  and the body is a JSON object, the object with the name written into it is created and
  the response is 201 with the header Location. Both need the notebook manager to return
  a well-formed model.
\<close>

theorem put_body_saves_or_uploads:
  assumes body: "truthy (json_body req)" and copy: "copy_argument req = []"
    and ex: "notebook_manager env (Notebook_exists n path) st = (Inr e, st1)"
    and save: "truthy e \<Longrightarrow> c = Save_notebook_model (json_body req) n path"
    and upload: "\<not> truthy e \<Longrightarrow>
      json_body req = PDict kvs \<and>
      c = Create_notebook_model
            (if n = [] then PDict kvs else PDict (AList.update ''name'' (PStr n) kvs)) path"
    and res: "notebook_manager env c st1 = (Inr m, st2)"
    and wf: "is_notebook_model m mn mp lm"
  shows "NotebookHandler_put env req path (Some n) (new_handler st) =
     (Inr (), response (if truthy e then 200 else 201)
        ((if truthy e \<and> mp = strip_slash path \<and> mn = n then []
          else [(''Location'',
                 PStr (url_path_join env [base_project_url env, ''api'', ''notebooks'', mp, mn]))])
         @ [(''Last-Modified'', lm)])
        (Some m) st2 [Notebook_exists n path, c])"
proof -
  let ?s1 = "(new_handler st)\<lparr>store := st1, calls := [Notebook_exists n path]\<rparr>"
  have put: "NotebookHandler_put env req path (Some n) (new_handler st) =
      (if truthy e then save_notebook env (json_body req) path n ?s1
       else upload_notebook env (json_body req) path (Some n) ?s1)"
    using body copy
    by (simp add: NotebookHandler_put_def get_json_body_def get_copy_argument_def and_then_def
        Let_def nbm_first [OF ex])
  show ?thesis
  proof (cases "truthy e")
    case True
    with save res have call:
      "notebook_manager env (Save_notebook_model (json_body req) n path) (store ?s1) = (Inr m, st2)"
      by simp
    from True save show ?thesis
      by (simp add: put save_notebook_result [OF call wf])
        (simp add: response_def new_handler_def)
  next
    case False
    let ?model = "if n = [] then PDict kvs else PDict (AList.update ''name'' (PStr n) kvs)"
    from False upload have obj: "json_body req = PDict kvs"
      and c: "c = Create_notebook_model ?model path"
      by simp_all
    from obj have name: "put_name (json_body req) (Some n) = Inr ?model"
      by (simp add: put_name_def)
    from c res have call:
      "notebook_manager env (Create_notebook_model ?model path) (store ?s1) = (Inr m, st2)"
      by simp
    from False c show ?thesis
      by (simp add: put upload_notebook_result [OF name call wf])
        (simp add: response_def new_handler_def)
  qed
qed

theorem put_body_saves_or_uploads_witness:
  "NotebookHandler_put sample_env
       \<lparr>json_body = PList [PInt 1], copy_argument = []\<rparr>
       ''/work'' (Some ''a.ipynb'') (new_handler [(''work'', ''a.ipynb'')]) =
     (Inr (), response 200 [(''Last-Modified'', PDate 0)]
        (Some (sample_model ''a.ipynb'' ''work''))
        [(''work'', ''a.ipynb'')]
        [Notebook_exists ''a.ipynb'' ''/work'',
         Save_notebook_model (PList [PInt 1]) ''a.ipynb'' ''/work''])
   \<and> NotebookHandler_put sample_env
       \<lparr>json_body = PDict [(''content'', PStr ''x'')], copy_argument = []\<rparr>
       ''/work'' (Some ''a.ipynb'') (new_handler []) =
     (Inr (), response 201
        [(''Location'', PStr ''/api/notebooks/work/a.ipynb''), (''Last-Modified'', PDate 0)]
        (Some (sample_model ''a.ipynb'' ''work''))
        [(''work'', ''a.ipynb'')]
        [Notebook_exists ''a.ipynb'' ''/work'',
         Create_notebook_model
           (PDict [(''content'', PStr ''x''), (''name'', PStr ''a.ipynb'')]) ''/work''])"
proof -
  let ?env = "sample_env"
  let ?list = "\<lparr>json_body = PList [PInt 1], copy_argument = []\<rparr>"
  let ?obj = "\<lparr>json_body = PDict [(''content'', PStr ''x'')], copy_argument = []\<rparr>"
  let ?save = "Save_notebook_model (PList [PInt 1]) ''a.ipynb'' ''/work''"
  let ?create = "Create_notebook_model
      (if ''a.ipynb'' = [] then PDict [(''content'', PStr ''x'')]
       else PDict (AList.update ''name'' (PStr ''a.ipynb'') [(''content'', PStr ''x'')]))
      ''/work''"
  have wf: "is_notebook_model (sample_model ''a.ipynb'' ''work'') ''a.ipynb'' ''work'' (PDate 0)"
    by (simp add: sample_defs)
  have saved: "NotebookHandler_put ?env ?list ''/work'' (Some ''a.ipynb'')
      (new_handler [(''work'', ''a.ipynb'')]) =
     (Inr (), response (if truthy (PBool True) then 200 else 201)
        ((if truthy (PBool True) \<and> ''work'' = strip_slash ''/work'' \<and> ''a.ipynb'' = ''a.ipynb''
          then []
          else [(''Location'', PStr (url_path_join ?env
                  [base_project_url ?env, ''api'', ''notebooks'', ''work'', ''a.ipynb'']))])
         @ [(''Last-Modified'', PDate 0)])
        (Some (sample_model ''a.ipynb'' ''work'')) [(''work'', ''a.ipynb'')]
        [Notebook_exists ''a.ipynb'' ''/work'', ?save])"
  proof (rule put_body_saves_or_uploads [where kvs = "[]"])
    show "truthy (json_body ?list)" by simp
    show "copy_argument ?list = []" by simp
    show "notebook_manager ?env (Notebook_exists ''a.ipynb'' ''/work'') [(''work'', ''a.ipynb'')] =
        (Inr (PBool True), [(''work'', ''a.ipynb'')])"
      by (simp add: sample_defs)
    show "?save = Save_notebook_model (json_body ?list) ''a.ipynb'' ''/work''" by simp
    show "json_body ?list = PDict [] \<and>
        ?save = Create_notebook_model
          (if ''a.ipynb'' = [] then PDict []
           else PDict (AList.update ''name'' (PStr ''a.ipynb'') [])) ''/work''"
      if "\<not> truthy (PBool True)"
      using that by simp
    show "notebook_manager ?env ?save [(''work'', ''a.ipynb'')] =
        (Inr (sample_model ''a.ipynb'' ''work''), [(''work'', ''a.ipynb'')])"
      by (simp add: sample_defs)
    show "is_notebook_model (sample_model ''a.ipynb'' ''work'') ''a.ipynb'' ''work'' (PDate 0)"
      by (rule wf)
  qed
  have created: "NotebookHandler_put ?env ?obj ''/work'' (Some ''a.ipynb'') (new_handler []) =
     (Inr (), response (if truthy (PBool False) then 200 else 201)
        ((if truthy (PBool False) \<and> ''work'' = strip_slash ''/work'' \<and> ''a.ipynb'' = ''a.ipynb''
          then []
          else [(''Location'', PStr (url_path_join ?env
                  [base_project_url ?env, ''api'', ''notebooks'', ''work'', ''a.ipynb'']))])
         @ [(''Last-Modified'', PDate 0)])
        (Some (sample_model ''a.ipynb'' ''work'')) [(''work'', ''a.ipynb'')]
        [Notebook_exists ''a.ipynb'' ''/work'', ?create])"
  proof (rule put_body_saves_or_uploads [where kvs = "[(''content'', PStr ''x'')]"])
    show "truthy (json_body ?obj)" by simp
    show "copy_argument ?obj = []" by simp
    show "notebook_manager ?env (Notebook_exists ''a.ipynb'' ''/work'') [] = (Inr (PBool False), [])"
      by (simp add: sample_defs)
    show "?create = Save_notebook_model (json_body ?obj) ''a.ipynb'' ''/work''"
      if "truthy (PBool False)"
      using that by simp
    show "json_body ?obj = PDict [(''content'', PStr ''x'')] \<and> ?create = ?create" by simp
    show "notebook_manager ?env ?create [] =
        (Inr (sample_model ''a.ipynb'' ''work''), [(''work'', ''a.ipynb'')])"
      by (simp add: sample_defs)
    show "is_notebook_model (sample_model ''a.ipynb'' ''work'') ''a.ipynb'' ''work'' (PDate 0)"
      by (rule wf)
  qed
  from saved created show ?thesis by (simp add: sample_defs)
qed

text \<open>
  C1 as stated fails for a body that is not a JSON object: with the body \<^verbatim>\<open>[1]\<close> and no
  notebook of that name, \<^verbatim>\<open>model['name'] = name\<close> raises after the existence check; no
  notebook is created, the status is not 201 and no header is set.
\<close>

theorem put_list_body_raises:
  "NotebookHandler_put sample_env \<lparr>json_body = PList [PInt 1], copy_argument = []\<rparr>
       ''/work'' (Some ''a.ipynb'') (new_handler []) =
     (Inl TypeError,
      \<lparr>status = 200, headers = [], written = None, finished = False, store = [],
        calls = [Notebook_exists ''a.ipynb'' ''/work'']\<rparr>)"
  by (simp add: handler_defs action_defs sample_defs new_handler_def Let_def)

text \<open>
  C6. A save whose call to the notebook manager returns a well-formed model sets the
  header Location exactly when the path and name of that model differ from the requested
  ones, the requested path taken without the slashes at its ends as the code compares it;
  the header Last-Modified is set in both cases and the status is left as it was.
\<close>

theorem save_location_iff_renamed:
  assumes call: "notebook_manager env (Save_notebook_model model n path) (store s) = (Inr m, st')"
    and wf: "is_notebook_model m mn mp lm"
    and fresh: "map_of (headers s) ''Location'' = None"
  shows "fst (save_notebook env model path n s) = Inr ()
     \<and> map_of (headers (snd (save_notebook env model path n s))) ''Location'' =
         (if (mp, mn) = (strip_slash path, n) then None
          else Some (PStr (url_path_join env
                 [base_project_url env, ''api'', ''notebooks'', mp, mn])))
     \<and> map_of (headers (snd (save_notebook env model path n s))) ''Last-Modified'' = Some lm
     \<and> status (snd (save_notebook env model path n s)) = status s"
  using fresh by (simp add: save_notebook_result [OF call wf] update_conv')

theorem save_location_iff_renamed_witness:
  "map_of (headers (snd (save_notebook sample_env (PDict [(''content'', PStr ''x'')])
       ''/work/'' ''a.ipynb'' (new_handler [(''work'', ''a.ipynb'')])))) ''Location'' = None
   \<and> map_of (headers (snd (save_notebook sample_env (PDict [(''name'', PStr ''b.ipynb'')])
       ''/work/'' ''a.ipynb'' (new_handler [(''work'', ''a.ipynb'')])))) ''Location'' =
       Some (PStr ''/api/notebooks/work/b.ipynb'')
   \<and> map_of (headers (snd (save_notebook sample_env (PDict [(''name'', PStr ''b.ipynb'')])
       ''/work/'' ''a.ipynb'' (new_handler [(''work'', ''a.ipynb'')])))) ''Last-Modified'' =
       Some (PDate 0)"
  using save_location_iff_renamed
    [of sample_env "PDict [(''content'', PStr ''x'')]" "''a.ipynb''" "''/work/''"
        "new_handler [(''work'', ''a.ipynb'')]" "sample_model ''a.ipynb'' ''work''"
        "[(''work'', ''a.ipynb'')]" "''a.ipynb''" "''work''" "PDate 0"]
    save_location_iff_renamed
    [of sample_env "PDict [(''name'', PStr ''b.ipynb'')]" "''a.ipynb''" "''/work/''"
        "new_handler [(''work'', ''a.ipynb'')]" "sample_model ''b.ipynb'' ''work''"
        "[(''work'', ''b.ipynb'')]" "''b.ipynb''" "''work''" "PDate 0"]
  by (simp add: sample_defs new_handler_def)

text \<open>
  C10. The two branches of PUT test the body differently. With the empty JSON object as
  body, a PUT with a non-empty copy argument raises HTTP 400, the body not being null;
  without a copy argument the same body counts as no body: the request does what
  \<^verbatim>\<open>_create_empty_notebook\<close> does, as the request with a null body would, and the response
  is 201 when the notebook manager returns a well-formed model.
\<close>

theorem put_empty_object_body:
  assumes body: "json_body req = PDict []"
    and res: "copy_argument req = [] \<Longrightarrow>
      notebook_manager env
        (Create_notebook_model (if n = [] then PDict [] else PDict [(''name'', PStr n)]) path) st =
        (Inr m, st') \<and>
      is_notebook_model m mn mp lm"
  shows "NotebookHandler_put env req path (Some n) (new_handler st) =
       (if copy_argument req \<noteq> [] then (Inl (HTTPError 400 None), new_handler st)
        else
          (Inr (), response 201
             [(''Location'',
               PStr (url_path_join env [base_project_url env, ''api'', ''notebooks'', mp, mn])),
              (''Last-Modified'', lm)]
             (Some m) st'
             [Create_notebook_model
                (if n = [] then PDict [] else PDict [(''name'', PStr n)]) path]))
     \<and> (copy_argument req = [] \<longrightarrow>
          NotebookHandler_put env req path (Some n) s = create_empty_notebook env path (Some n) s
        \<and> NotebookHandler_put env req path (Some n) s =
            NotebookHandler_put env (req\<lparr>json_body := PNone\<rparr>) path (Some n) s)"
proof (cases "copy_argument req = []")
  case False
  with body show ?thesis by (simp add: handler_defs raise_def)
next
  case True
  let ?c = "Create_notebook_model (if n = [] then PDict [] else PDict [(''name'', PStr n)]) path"
  from res [OF True] have call: "notebook_manager env ?c st = (Inr m, st')"
    and wf: "is_notebook_model m mn mp lm"
    by simp_all
  have empty: "NotebookHandler_put env req path (Some n) s = create_empty_notebook env path (Some n) s"
    for s
    using True body by (simp add: NotebookHandler_put_def get_json_body_def get_copy_argument_def)
  have null: "NotebookHandler_put env (req\<lparr>json_body := PNone\<rparr>) path (Some n) s =
      create_empty_notebook env path (Some n) s"
    using True by (simp add: NotebookHandler_put_def get_json_body_def get_copy_argument_def)
  have "create_empty_notebook env path (Some n) (new_handler st) =
      (Inr (), response 201
         [(''Location'',
           PStr (url_path_join env [base_project_url env, ''api'', ''notebooks'', mp, mn])),
          (''Last-Modified'', lm)]
         (Some m) st' [?c])"
    using nbm_first [OF call]
    by (cases "n = []")
      (simp_all add: create_empty_notebook_def put_name_def and_then_def lift_def
        set_status_def finish_model_located [OF wf] response_def new_handler_def)
  with True empty null show ?thesis by simp
qed

theorem put_empty_object_body_witness:
  "NotebookHandler_put sample_env \<lparr>json_body = PDict [], copy_argument = ''b.ipynb''\<rparr>
       ''/work'' (Some ''a.ipynb'') (new_handler [(''work'', ''b.ipynb'')]) =
     (Inl (HTTPError 400 None), new_handler [(''work'', ''b.ipynb'')])
   \<and> NotebookHandler_put sample_env \<lparr>json_body = PDict [], copy_argument = []\<rparr>
       ''/work'' (Some ''a.ipynb'') (new_handler [(''work'', ''b.ipynb'')]) =
     (Inr (), response 201
        [(''Location'', PStr ''/api/notebooks/work/a.ipynb''), (''Last-Modified'', PDate 0)]
        (Some (sample_model ''a.ipynb'' ''work''))
        [(''work'', ''a.ipynb''), (''work'', ''b.ipynb'')]
        [Create_notebook_model (PDict [(''name'', PStr ''a.ipynb'')]) ''/work''])"
  using put_empty_object_body
    [of "\<lparr>json_body = PDict [], copy_argument = ''b.ipynb''\<rparr>" sample_env "''a.ipynb''"
        "''/work''" "[(''work'', ''b.ipynb'')]", THEN conjunct1]
    put_empty_object_body
    [of "\<lparr>json_body = PDict [], copy_argument = []\<rparr>" sample_env "''a.ipynb''"
        "''/work''" "[(''work'', ''b.ipynb'')]" "sample_model ''a.ipynb'' ''work''"
        "[(''work'', ''a.ipynb''), (''work'', ''b.ipynb'')]" "''a.ipynb''" "''work''" "PDate 0",
        THEN conjunct1]
  by (simp add: sample_defs)

section \<open>DELETE\<close>

text \<open>
  C9. The claim is that a DELETE without a name is rejected with HTTP 400 and never reaches
  the notebook manager. The method has no such check: with the name absent it calls the
  notebook manager's delete with \<^verbatim>\<open>None\<close> for the name, and its outcome is the outcome of
  that call. This theorem states what the code does at that input.
\<close>

theorem delete_without_name_reaches_manager:
  "calls (snd (NotebookHandler_delete env path None s)) =
       calls s @ [Delete_notebook_model None path]
   \<and> fst (NotebookHandler_delete env path None s) =
       (case fst (notebook_manager env (Delete_notebook_model None path) (store s)) of
          Inl e \<Rightarrow> Inl e
        | Inr v \<Rightarrow> Inr ())"
  by (simp add: NotebookHandler_delete_def action_defs split: prod.splits sum.splits)

section \<open>Last-Modified on the responses of the mutating methods\<close>

lemma and_then_returns:
  assumes "and_then m f s = (Inr y, s')"
  obtains x s1 where "m s = (Inr x, s1)" and "f x s1 = (Inr y, s')"
  using assms by (auto simp add: and_then_def split: prod.splits sum.splits)

lemma copy_notebook_carries:
  assumes "copy_notebook env src path dst s = (Inr (), s')"
  shows "carries_last_modified s'"
  using assms unfolding copy_notebook_def
  by (auto elim!: and_then_returns intro: finish_model_carries)

lemma upload_notebook_carries:
  assumes "upload_notebook env model path name s = (Inr (), s')"
  shows "carries_last_modified s'"
  using assms unfolding upload_notebook_def
  by (auto elim!: and_then_returns intro: finish_model_carries)

lemma create_empty_notebook_carries:
  assumes "create_empty_notebook env path name s = (Inr (), s')"
  shows "carries_last_modified s'"
  using assms unfolding create_empty_notebook_def
  by (auto elim!: and_then_returns intro: finish_model_carries)

lemma save_notebook_carries:
  assumes "save_notebook env model path name s = (Inr (), s')"
  shows "carries_last_modified s'"
  using assms unfolding save_notebook_def
  by (auto elim!: and_then_returns intro: finish_model_carries)

lemma patch_carries:
  assumes "NotebookHandler_patch env req path name s = (Inr (), s')"
  shows "carries_last_modified s'"
  using assms unfolding NotebookHandler_patch_def
  by (auto simp add: raise_def Let_def elim!: and_then_returns intro: finish_model_carries
      split: option.splits if_splits)

lemma post_carries:
  assumes "NotebookHandler_post env req path name s = (Inr (), s')"
  shows "carries_last_modified s'"
  using assms unfolding NotebookHandler_post_def
  by (auto simp add: raise_def Let_def split: if_splits
      intro: copy_notebook_carries upload_notebook_carries create_empty_notebook_carries)

lemma put_carries:
  assumes "NotebookHandler_put env req path name s = (Inr (), s')"
  shows "carries_last_modified s'"
  using assms unfolding NotebookHandler_put_def
  by (auto simp add: raise_def Let_def split: option.splits if_splits elim!: and_then_returns
      intro: copy_notebook_carries upload_notebook_carries create_empty_notebook_carries
        save_notebook_carries)

lemma delete_sets_no_header:
  assumes "NotebookHandler_delete env path name s = (Inr (), s')"
  shows "headers s' = headers s \<and> status s' = 204 \<and> written s' = None"
  using assms
  by (auto simp add: NotebookHandler_delete_def action_defs split: prod.splits sum.splits)

text \<open>
  C8, as the code has it. Every PATCH, POST and PUT that returns, that is every rename,
  copy, upload, creation and save, has set the header Last-Modified to the
  \<^verbatim>\<open>last_modified\<close> entry of the model it has written. A DELETE that returns has status 204
  and an empty body and has set no header at all.
\<close>

theorem model_responses_carry_last_modified:
  "(NotebookHandler_patch env req path name s = (Inr (), s') \<longrightarrow> carries_last_modified s')
   \<and> (NotebookHandler_post env req path name s = (Inr (), s') \<longrightarrow> carries_last_modified s')
   \<and> (NotebookHandler_put env req path name s = (Inr (), s') \<longrightarrow> carries_last_modified s')
   \<and> (NotebookHandler_delete env path name s = (Inr (), s') \<longrightarrow>
        headers s' = headers s \<and> status s' = 204 \<and> written s' = None)"
  by (auto dest: delete_sets_no_header intro: patch_carries post_carries put_carries)

theorem model_responses_carry_last_modified_witness:
  "carries_last_modified (snd (NotebookHandler_patch sample_env
       \<lparr>json_body = PDict [(''name'', PStr ''b.ipynb'')], copy_argument = []\<rparr>
       ''/work'' (Some ''a.ipynb'') (new_handler [(''work'', ''a.ipynb'')])))
   \<and> carries_last_modified (snd (NotebookHandler_post sample_env
       \<lparr>json_body = PNone, copy_argument = []\<rparr> ''/work'' None (new_handler [])))
   \<and> carries_last_modified (snd (NotebookHandler_put sample_env
       \<lparr>json_body = PDict [(''content'', PStr ''x'')], copy_argument = []\<rparr>
       ''/work'' (Some ''a.ipynb'') (new_handler [(''work'', ''a.ipynb'')])))
   \<and> headers (snd (NotebookHandler_delete sample_env ''/work'' (Some ''a.ipynb'')
       (new_handler [(''work'', ''a.ipynb'')]))) = []"
proof -
  let ?patch = "NotebookHandler_patch sample_env
       \<lparr>json_body = PDict [(''name'', PStr ''b.ipynb'')], copy_argument = []\<rparr>
       ''/work'' (Some ''a.ipynb'') (new_handler [(''work'', ''a.ipynb'')])"
  let ?post = "NotebookHandler_post sample_env
       \<lparr>json_body = PNone, copy_argument = []\<rparr> ''/work'' None (new_handler [])"
  let ?put = "NotebookHandler_put sample_env
       \<lparr>json_body = PDict [(''content'', PStr ''x'')], copy_argument = []\<rparr>
       ''/work'' (Some ''a.ipynb'') (new_handler [(''work'', ''a.ipynb'')])"
  let ?delete = "NotebookHandler_delete sample_env ''/work'' (Some ''a.ipynb'')
       (new_handler [(''work'', ''a.ipynb'')])"
  have patch: "?patch = (Inr (), snd ?patch)"
    by (simp add: handler_defs action_defs finish_model_def notebook_location_def
        path_join_def sample_defs new_handler_def)
  have post: "?post = (Inr (), snd ?post)"
    by (simp add: handler_defs action_defs finish_model_def notebook_location_def
        path_join_def sample_defs new_handler_def)
  have put: "?put = (Inr (), snd ?put)"
    by (simp add: handler_defs action_defs finish_model_def notebook_location_def
        path_join_def sample_defs new_handler_def Let_def)
  have delete: "?delete = (Inr (), snd ?delete)"
    by (simp add: handler_defs action_defs sample_defs new_handler_def)
  from model_responses_carry_last_modified [THEN conjunct1, rule_format, OF patch]
    model_responses_carry_last_modified [THEN conjunct2, THEN conjunct1, rule_format, OF post]
    model_responses_carry_last_modified
      [THEN conjunct2, THEN conjunct2, THEN conjunct1, rule_format, OF put]
    model_responses_carry_last_modified
      [THEN conjunct2, THEN conjunct2, THEN conjunct2, rule_format, OF delete]
  show ?thesis by (simp add: new_handler_def)
qed

text \<open>
  C8 as stated fails for Delete: the deletion of an existing notebook returns 204 with no
  header.
\<close>

theorem delete_response_without_last_modified:
  "NotebookHandler_delete sample_env ''/work'' (Some ''a.ipynb'')
       (new_handler [(''work'', ''a.ipynb'')]) =
     (Inr (), response 204 [] None [] [Delete_notebook_model (Some ''a.ipynb'') ''/work''])
   \<and> map_of (headers (snd (NotebookHandler_delete sample_env ''/work'' (Some ''a.ipynb'')
       (new_handler [(''work'', ''a.ipynb'')])))) ''Last-Modified'' = None"
  by (simp add: handler_defs action_defs sample_defs new_handler_def)

section \<open>Checkpoints\<close>

text \<open>
  C7, as the code has it. When the notebook manager returns a checkpoint with a string
  \<^verbatim>\<open>id\<close>, the POST to the checkpoints of a notebook answers 201 with one header: the
  Location joined from the base URL, \<^verbatim>\<open>api/notebooks\<close>, the path, the name,
  \<^verbatim>\<open>checkpoints\<close> and the id. The handler sets no Last-Modified header; the checkpoint,
  with its time stamp, is the body.
\<close>

theorem checkpoint_post_created:
  assumes call: "notebook_manager env (Create_checkpoint (Some n) path) st = (Inr cp, st')"
    and cid: "getitem cp ''id'' = Inr (PStr cid)"
  shows "NotebookCheckpointsHandler_post env path (Some n) (new_handler st) =
     (Inr (), response 201
        [(''Location'',
          PStr (url_path_join env
            [base_project_url env, ''api/notebooks'', path, n, ''checkpoints'', cid]))]
        (Some cp) st' [Create_checkpoint (Some n) path])"
  using nbm_first [OF call] cid
  by (simp add: NotebookCheckpointsHandler_post_def and_then_def lift_def set_header_def
      set_status_def finish_def path_join_def name_value_def response_def new_handler_def)

theorem checkpoint_post_created_witness:
  "NotebookCheckpointsHandler_post sample_env ''/work'' (Some ''a.ipynb'')
       (new_handler [(''work'', ''a.ipynb'')]) =
     (Inr (), response 201
        [(''Location'', PStr ''/api/notebooks/work/a.ipynb/checkpoints/checkpoint-0'')]
        (Some sample_checkpoint) [(''work'', ''a.ipynb'')]
        [Create_checkpoint (Some ''a.ipynb'') ''/work''])"
proof -
  have call: "notebook_manager sample_env (Create_checkpoint (Some ''a.ipynb'') ''/work'')
      [(''work'', ''a.ipynb'')] = (Inr sample_checkpoint, [(''work'', ''a.ipynb'')])"
    by (simp add: sample_env_def strip_slash_def)
  have cid: "getitem sample_checkpoint ''id'' = Inr (PStr ''checkpoint-0'')"
    by (simp add: sample_checkpoint_def)
  from checkpoint_post_created [OF call cid] show ?thesis
    by (simp add: sample_env_def strip_slash_def)
qed

text \<open>
  C7 as stated fails: the checkpoint returned has a time stamp, the response is 201, and
  it has no Last-Modified header.
\<close>

theorem checkpoint_post_without_last_modified:
  "fst (NotebookCheckpointsHandler_post sample_env ''/work'' (Some ''a.ipynb'')
       (new_handler [(''work'', ''a.ipynb'')])) = Inr ()
   \<and> status (snd (NotebookCheckpointsHandler_post sample_env ''/work'' (Some ''a.ipynb'')
       (new_handler [(''work'', ''a.ipynb'')]))) = 201
   \<and> written (snd (NotebookCheckpointsHandler_post sample_env ''/work'' (Some ''a.ipynb'')
       (new_handler [(''work'', ''a.ipynb'')]))) =
       Some (PDict [(''id'', PStr ''checkpoint-0''), (''last_modified'', PDate 0)])
   \<and> map_of (headers (snd (NotebookCheckpointsHandler_post sample_env ''/work''
       (Some ''a.ipynb'') (new_handler [(''work'', ''a.ipynb'')])))) ''Last-Modified'' = None"
  by (simp add: NotebookCheckpointsHandler_post_def action_defs path_join_def name_value_def
      sample_defs new_handler_def)

end
